theory Spec2Isabelle
  imports Complex_Main "HOL-Library.Multiset" "HOL-Library.Word"
    "HOL-Library.Char_ord" "HOL-Library.List_Lexorder" "HOL-Library.Product_Lexorder"
begin

unbundle bit_operations_syntax

section \<open>Errors raised by the command handlers\<close>

text \<open>
  Every handler of \<^verbatim>\<open>tsutil.py\<close> either completes or aborts with a Python exception.
  The exceptions that the modelled code paths can raise are collected in one datatype;
  a handler returns \<open>Inl e\<close> where the source raises \<open>e\<close>. \<open>ShapeError\<close> stands for
  the exception numpy raises when the shapes of two arrays do not fit an assignment or
  an element-wise operation.
\<close>

datatype py_error =
    AssertionError
  | ValueError
  | KeyError
  | TypeError
  | IndexError
  | UnboundLocalError
  | FileNotFoundError
  | UnsupportedOperation
  | FileFormatError
  | StopIteration
  | ShapeError
  | ArgparseExit

section \<open>The command-line entry point (\<^verbatim>\<open>main\<close>)\<close>

text \<open>
  \<^verbatim>\<open>main\<close> creates one sub-parser per subcommand and binds a handler to it with
  \<^verbatim>\<open>set_defaults(func=...)\<close>. The handlers are Python function objects; they are
  named here by one constructor each.
\<close>

datatype handler =
    Fn_run_simplify
  | Fn_run_sequential_augment
  | Fn_run_combine_ukbb_1kg
  | Fn_run_benchmark_tskit
  | Fn_run_benchmark_vcf
  | Fn_run_compute_1kg_ukbb_gnn
  | Fn_run_compute_ukbb_gnn
  | Fn_run_compute_1kg_gnn
  | Fn_run_compute_sgdp_gnn
  | Fn_run_compute_hgdp_gnn
  | Fn_run_snip_centromere
  | Fn_run_combine_sampledata
  | Fn_run_merge_sampledata
  | Fn_make_sampledata_compatible

text \<open>
  The calls \<^verbatim>\<open>subparsers.add_parser(name)\<close> followed by
  \<^verbatim>\<open>subparser.set_defaults(func=h)\<close>, in the order of the source.
\<close>

definition subparsers :: "(string \<times> handler) list" where
  "subparsers =
    [ (''simplify'', Fn_run_simplify),
      (''sequential-augment'', Fn_run_sequential_augment),
      (''combine-ukbb-1kg'', Fn_run_combine_ukbb_1kg),
      (''benchmark-tskit'', Fn_run_benchmark_tskit),
      (''benchmark-vcf'', Fn_run_benchmark_vcf),
      (''compute-1kg-ukbb-gnn'', Fn_run_compute_1kg_ukbb_gnn),
      (''compute-ukbb-gnn'', Fn_run_compute_ukbb_gnn),
      (''compute-1kg-gnn'', Fn_run_compute_1kg_gnn),
      (''compute-sgdp-gnn'', Fn_run_compute_sgdp_gnn),
      (''compute-hgdp-gnn'', Fn_run_compute_hgdp_gnn),
      (''snip-centromere'', Fn_run_snip_centromere),
      (''combine-sampledata'', Fn_run_combine_sampledata),
      (''merge-sampledata'', Fn_run_merge_sampledata),
      (''make-sampledata-compatible'', Fn_make_sampledata_compatible) ]"

text \<open>
  \<^verbatim>\<open>subparsers.required = True\<close>: a command line without a subcommand makes argparse
  exit with a usage error, and so does a subcommand that is not a registered name.
  Otherwise \<^verbatim>\<open>args.func\<close> is the handler of the sub-parser that was selected, and
  \<^verbatim>\<open>main\<close> calls it. The argument is the subcommand token of the command line, if any;
  the result is the handler that \<^verbatim>\<open>args.func(args)\<close> invokes.
\<close>

definition main :: "string option \<Rightarrow> py_error + handler" where
  "main command =
     (case command of
        None \<Rightarrow> Inl ArgparseExit
      | Some name \<Rightarrow>
          (case map_of subparsers name of
             None \<Rightarrow> Inl ArgparseExit
           | Some func \<Rightarrow> Inr func))"

section \<open>Sequential augmentation (\<^verbatim>\<open>run_sequential_augment\<close>)\<close>

text \<open>\<^verbatim>\<open>".".join(args.input.split(".")[:-1])\<close>: the input path up to its last dot.\<close>

definition base_of :: "string \<Rightarrow> string" where
  "base_of input = rev (tl (dropWhile (\<lambda>c. c \<noteq> CHR ''.'') (rev input)))"

text \<open>\<^verbatim>\<open>"{}".format(n)\<close> for a non-negative integer.\<close>

fun str_nat :: "nat \<Rightarrow> string" where
  "str_nat n =
     (if n < 10 then [''0123456789'' ! n]
      else str_nat (n div 10) @ [''0123456789'' ! (n mod 10)])"

declare str_nat.simps [simp del]

text \<open>
  The first loop, which computes the number of samples to draw:
  \<^verbatim>\<open>while n < num_samples // 4: total += n; n *= 2\<close>.
  The loop is written as the source has it; that it is left when started at \<open>n = 2\<close>
  is proved below, not assumed.
\<close>

partial_function (option) total_loop :: "nat \<Rightarrow> nat \<Rightarrow> nat \<Rightarrow> (nat \<times> nat) option" where
  "total_loop q n tot =
     (if n < q then total_loop q (n * 2) (tot + n) else Some (n, tot))"

text \<open>What the handler writes: the array of drawn samples and tree sequences.\<close>

datatype 'ts file_content = Npy "nat list" | Trees 'ts

text \<open>
  The local variables of the second loop. \<open>final_file\<close> is \<open>None\<close> as long as the
  Python local is unbound.
\<close>

record 'ts augment_state =
  n_var :: nat
  j_var :: nat
  ancestors_ts :: 'ts
  final_file :: "string option"
  written :: "(string \<times> 'ts file_content) list"

text \<open>
  One round of the second loop. \<open>augment\<close> stands for \<^verbatim>\<open>run_augment\<close>, which only
  forwards to the external \<^verbatim>\<open>tsinfer.augment_ancestors\<close>; the subset is
  \<^verbatim>\<open>samples[j : j + n]\<close>, sorted.
\<close>

definition augment_round ::
  "(nat list \<Rightarrow> 'ts \<Rightarrow> 'ts) \<Rightarrow> string \<Rightarrow> nat list \<Rightarrow> 'ts augment_state \<Rightarrow> 'ts augment_state" where
  "augment_round augment base samples st =
     (let n = n_var st;
          j = j_var st;
          augmented_file = base @ ''.augmented_'' @ str_nat n @ ''.ancestors.trees'';
          final = base @ ''.augmented_'' @ str_nat n @ ''.nosimplify.trees'';
          subset = sort (take n (drop j samples));
          ts = augment subset (ancestors_ts st)
      in \<lparr> n_var = n * 2,
           j_var = j + n,
           ancestors_ts = ts,
           final_file = Some final,
           written = written st @ [(augmented_file, Trees ts)] \<rparr>)"

partial_function (option) augment_loop ::
  "(nat list \<Rightarrow> 'ts \<Rightarrow> 'ts) \<Rightarrow> string \<Rightarrow> nat list \<Rightarrow> nat \<Rightarrow> 'ts augment_state
     \<Rightarrow> 'ts augment_state option" where
  "augment_loop augment base samples q st =
     (if n_var st < q
      then augment_loop augment base samples q (augment_round augment base samples st)
      else Some st)"

text \<open>
  The handler. Its parameters are the command-line input path, the number of samples of
  the loaded sample data, the loaded ancestors tree sequence and the three external
  operations: \<open>choice num_samples total\<close> for the seeded
  \<^verbatim>\<open>np.random.choice(np.arange(num_samples), size=total, replace=False)\<close>,
  \<open>augment\<close> for \<^verbatim>\<open>run_augment\<close> and \<open>match_samples\<close> for
  \<^verbatim>\<open>run_match_samples\<close>. The result is \<open>None\<close> if a loop does not end; otherwise the
  files written so far together with the exception that aborted the handler, if any.
  The last statement \<^verbatim>\<open>final_ts.dump(final_file)\<close> reads the local \<open>final_file\<close>:
  Python raises \<^verbatim>\<open>UnboundLocalError\<close> (a subclass of \<^verbatim>\<open>NameError\<close>) when no round
  has assigned it.
\<close>

definition run_sequential_augment ::
  "(nat \<Rightarrow> nat \<Rightarrow> nat list) \<Rightarrow> (nat list \<Rightarrow> 'ts \<Rightarrow> 'ts) \<Rightarrow> ('ts \<Rightarrow> 'ts)
     \<Rightarrow> string \<Rightarrow> nat \<Rightarrow> 'ts
     \<Rightarrow> ((string \<times> 'ts file_content) list \<times> py_error option) option" where
  "run_sequential_augment choice augment match_samples input num_samples ts0 =
     (let base = base_of input in
      case total_loop (num_samples div 4) 2 0 of
        None \<Rightarrow> None
      | Some (n_end, tot) \<Rightarrow>
          (let samples = choice num_samples tot;
               st0 = \<lparr> n_var = 2, j_var = 0, ancestors_ts = ts0, final_file = None,
                       written = [(base @ ''.augmented_samples.npy'', Npy samples)] \<rparr>
           in case augment_loop augment base samples (num_samples div 4) st0 of
                None \<Rightarrow> None
              | Some st \<Rightarrow>
                  (let final_ts = match_samples (ancestors_ts st) in
                   case final_file st of
                     None \<Rightarrow> Some (written st, Some UnboundLocalError)
                   | Some f \<Rightarrow> Some (written st @ [(f, Trees final_ts)], None))))"

section \<open>Snipping the centromere (\<^verbatim>\<open>run_snip_centromere\<close>)\<close>

text \<open>
  The centromere table is read with \<^verbatim>\<open>csv.DictReader\<close>. A CSV file is given by the
  rows of fields that \<^verbatim>\<open>csv.reader\<close> yields. The first row holds the field names;
  every later row that is not empty becomes a dictionary \<^verbatim>\<open>dict(zip(fieldnames, row))\<close>,
  in which a field name that the row is too short for is mapped to \<^verbatim>\<open>None\<close>
  (the default \<^verbatim>\<open>restval\<close>). A cell is therefore a \<open>string option\<close>. Surplus
  cells of a long row are stored under the key \<^verbatim>\<open>None\<close>, which no look-up of the
  handler uses; they are dropped. A later duplicate of a field name wins, as in
  \<^verbatim>\<open>dict\<close>.
\<close>

type_synonym csv_row = "string \<rightharpoonup> string option"

definition row_dict :: "string list \<Rightarrow> string list \<Rightarrow> csv_row" where
  "row_dict fieldnames row =
     map_of (rev (zip fieldnames
                    (map Some row @ replicate (length fieldnames - length row) None)))"

fun DictReader :: "string list list \<Rightarrow> csv_row list" where
  "DictReader [] = []"
| "DictReader (fieldnames # rows) =
     map (row_dict fieldnames) (filter (\<lambda>row. row \<noteq> []) rows)"

text \<open>
  \<^verbatim>\<open>int(row[key])\<close>: a missing key raises \<^verbatim>\<open>KeyError\<close>, the value \<^verbatim>\<open>None\<close>
  raises \<^verbatim>\<open>TypeError\<close>, and a string that is not an integer literal raises
  \<^verbatim>\<open>ValueError\<close>. Python's own \<^verbatim>\<open>int\<close> is the parameter \<open>int_of\<close>
  (\<open>None\<close> where it rejects the string).
\<close>

definition int_field :: "(string \<Rightarrow> int option) \<Rightarrow> csv_row \<Rightarrow> string \<Rightarrow> py_error + int" where
  "int_field int_of row key =
     (case row key of
        None \<Rightarrow> Inl KeyError
      | Some None \<Rightarrow> Inl TypeError
      | Some (Some s) \<Rightarrow> (case int_of s of None \<Rightarrow> Inl ValueError | Some i \<Rightarrow> Inr i))"

text \<open>
  The \<^verbatim>\<open>for row in reader: ... break ... else: raise ValueError("Did not find row")\<close>
  loop. \<^verbatim>\<open>row["chrom"]\<close> raises \<^verbatim>\<open>KeyError\<close> when the table has no such column.
\<close>

fun find_centromere ::
  "(string \<Rightarrow> int option) \<Rightarrow> csv_row list \<Rightarrow> string \<Rightarrow> py_error + (int \<times> int)" where
  "find_centromere int_of [] chrom = Inl ValueError"
| "find_centromere int_of (row # reader) chrom =
     (case row ''chrom'' of
        None \<Rightarrow> Inl KeyError
      | Some cell \<Rightarrow>
          if cell = Some chrom then
            (case int_field int_of row ''start'' of
               Inl e \<Rightarrow> Inl e
             | Inr start \<Rightarrow>
                 (case int_field int_of row ''end'' of
                    Inl e \<Rightarrow> Inl e
                  | Inr end_pos \<Rightarrow> Inr (start, end_pos)))
          else find_centromere int_of reader chrom)"

text \<open>
  \<^verbatim>\<open>np.searchsorted(position, v)\<close> on the sorted site positions of a tree sequence:
  the number of positions below \<open>v\<close>.
\<close>

definition searchsorted :: "real list \<Rightarrow> real \<Rightarrow> nat" where
  "searchsorted position v = length (takeWhile (\<lambda>x. x < v) position)"

text \<open>\<^verbatim>\<open>np.argmax\<close> of a non-empty array: the first index of the largest entry.\<close>

fun argmax_from :: "nat \<Rightarrow> nat \<Rightarrow> real \<Rightarrow> real list \<Rightarrow> nat" where
  "argmax_from best i m [] = best"
| "argmax_from best i m (x # xs) =
     (if m < x then argmax_from i (Suc i) x xs else argmax_from best (Suc i) m xs)"

definition argmax :: "real list \<Rightarrow> py_error + nat" where
  "argmax xs = (case xs of [] \<Rightarrow> Inl ValueError | x # rest \<Rightarrow> Inr (argmax_from 0 1 x rest))"

text \<open>
  What the handler does to the outside, in order: it loads the input tree sequence, and
  at the end dumps the tree sequence that \<^verbatim>\<open>tsinfer.snip_centromere\<close> returns for the
  interval found.
\<close>

datatype snip_event = Load_input | Dump_snipped real real

text \<open>
  The handler: the rows of the centromere table, the chromosome name and the site
  positions of the input tree sequence (read only if the table look-up succeeds). The
  result is the list of events and the exception that aborted the handler, if any.
\<close>

definition run_snip_centromere ::
  "(string \<Rightarrow> int option) \<Rightarrow> string list list \<Rightarrow> string \<Rightarrow> real list
     \<Rightarrow> snip_event list \<times> py_error option" where
  "run_snip_centromere int_of csvfile chrom position =
     (case find_centromere int_of (DictReader csvfile) chrom of
        Inl e \<Rightarrow> ([], Some e)
      | Inr (start, end_pos) \<Rightarrow>
          (let s_index = searchsorted position (real_of_int start);
               e_index = searchsorted position (real_of_int end_pos);
               X = take (e_index + 1 - s_index) (drop s_index position)
           in case argmax (map2 (-) (tl X) (butlast X)) of
                Inl e \<Rightarrow> ([Load_input], Some e)
              | Inr j \<Rightarrow> ([Load_input, Dump_snipped (X ! j + 1) (X ! (j + 1))], None)))"

text \<open>
  The hypothesis of the claim about a missing chromosome: no row of the table has a
  \<^verbatim>\<open>chrom\<close> field equal to the name.
\<close>

definition no_chrom_row :: "string list list \<Rightarrow> string \<Rightarrow> bool" where
  "no_chrom_row csvfile chrom =
     list_all (\<lambda>row. row ''chrom'' \<noteq> Some (Some chrom)) (DictReader csvfile)"

text \<open>A reader of plain decimal numerals, to instantiate \<open>int_of\<close> in examples.\<close>

fun decimal_value :: "nat \<Rightarrow> string \<Rightarrow> nat option" where
  "decimal_value acc [] = Some acc"
| "decimal_value acc (c # cs) =
     (if c \<in> set ''0123456789''
      then decimal_value (10 * acc + (of_char c - 48)) cs
      else None)"

definition decimal_int :: "string \<Rightarrow> int option" where
  "decimal_int s = (if s = [] then None else map_option int (decimal_value 0 s))"

section \<open>Sample-data files\<close>

text \<open>
  A \<^verbatim>\<open>tsinfer.SampleData\<close> file as the handlers read it. Its site arrays
  (\<^verbatim>\<open>sites_position\<close>, \<^verbatim>\<open>sites_alleles\<close>, \<^verbatim>\<open>sites_genotypes\<close>,
  \<^verbatim>\<open>sites_metadata\<close>) all have one row per site, so a file holds a list of sites and
  the arrays are its columns. Positions and sequence lengths are floating-point numbers
  in the source; they are only compared and copied, and are modelled as reals. A
  genotype is an \<^verbatim>\<open>int8\<close> that is only compared and copied. Metadata is JSON; the
  metadata of a population is the dictionary the handlers index with \<^verbatim>\<open>"name"\<close>,
  other metadata is opaque.
\<close>

record site =
  position :: real
  alleles :: "string list"
  genotypes :: "int list"
  metadata :: string

record individual =
  ind_metadata :: string
  ind_time :: real

record sample_data =
  sequence_length :: real
  num_samples :: nat
  sd_sites :: "site list"
  populations_metadata :: "(string \<times> string) list list"
  samples_population :: "int list"
  individuals :: "individual list"

definition sites_position :: "sample_data \<Rightarrow> real list" where
  "sites_position sd = map position (sd_sites sd)"





text \<open>\<^verbatim>\<open>tskit.MISSING_DATA\<close>.\<close>

definition MISSING_DATA :: int where
  "MISSING_DATA = - 1"



text \<open>
  The files of the working directory: a text file is its list of lines (each with its
  line end), a sample-data file is its content.
\<close>

datatype file_entry = Text "string list" | Samples sample_data

type_synonym filesystem = "string \<rightharpoonup> file_entry"

text \<open>
  Iterating over \<^verbatim>\<open>open(path, "r")\<close>: a missing file raises
  \<^verbatim>\<open>FileNotFoundError\<close>; the bytes of a sample-data file are not text
  (\<^verbatim>\<open>UnicodeDecodeError\<close>, a \<^verbatim>\<open>ValueError\<close>).
\<close>

definition read_lines :: "filesystem \<Rightarrow> string \<Rightarrow> py_error + string list" where
  "read_lines fs path =
     (case fs path of
        None \<Rightarrow> Inl FileNotFoundError
      | Some (Text ls) \<Rightarrow> Inr ls
      | Some (Samples sd) \<Rightarrow> Inl ValueError)"

text \<open>
  \<^verbatim>\<open>tsinfer.load(fn)\<close>: a missing file raises \<^verbatim>\<open>FileNotFoundError\<close>, a file
  that is not in the sample-data format raises tsinfer's \<^verbatim>\<open>FileFormatError\<close>.
\<close>

definition load :: "filesystem \<Rightarrow> string \<Rightarrow> py_error + sample_data" where
  "load fs fn =
     (case fs fn of
        None \<Rightarrow> Inl FileNotFoundError
      | Some (Text ls) \<Rightarrow> Inl FileFormatError
      | Some (Samples sd) \<Rightarrow> Inr sd)"

text \<open>\<^verbatim>\<open>fn.rstrip("\n")\<close>.\<close>

definition rstrip_newline :: "string \<Rightarrow> string" where
  "rstrip_newline fn = rev (dropWhile (\<lambda>c. c = CHR 0x0A) (rev fn))"

section \<open>Making sample-data files compatible (\<^verbatim>\<open>make_sampledata_compatible\<close>)\<close>

text \<open>
  \<^verbatim>\<open>np.where(~np.isin(a, b))[0]\<close>: the indices of the entries of \<open>a\<close> that do not
  occur in \<open>b\<close>.
\<close>

definition where_not_isin :: "real list \<Rightarrow> real list \<Rightarrow> nat list" where
  "where_not_isin a b = filter (\<lambda>i. a ! i \<notin> set b) [0..<length a]"

text \<open>\<^verbatim>\<open>cur_sd.delete(sites=delete_sites)\<close>: a copy without the sites listed.\<close>

definition delete_sites :: "sample_data \<Rightarrow> nat list \<Rightarrow> sample_data" where
  "delete_sites sd idx =
     sd \<lparr> sd_sites := map snd (filter (\<lambda>(i, s). i \<notin> set idx) (zip [0..<length (sd_sites sd)] (sd_sites sd))) \<rparr>"

text \<open>\<^verbatim>\<open>fn[:-len(".samples")] + "deleted.samples"\<close>.\<close>

definition deleted_name :: "string \<Rightarrow> string" where
  "deleted_name fn = take (length fn - length ''.samples'') fn @ ''deleted.samples''"

text \<open>
  The loop over the lines of the input file. The first line names the target file; each
  later file is copied, without the sites whose position the target does not have, to
  its new name, which is appended to \<open>new_names\<close>. The state is the file system and
  \<open>new_names\<close>; it is returned together with the exception that ended the loop, if
  any (the copies made before a failure stay).
\<close>

fun compatible_loop ::
  "sample_data \<Rightarrow> string list \<Rightarrow> filesystem \<times> string list
     \<Rightarrow> (filesystem \<times> string list) \<times> py_error option" where
  "compatible_loop target_sd [] (fs, new_names) = ((fs, new_names), None)"
| "compatible_loop target_sd (line # rest) (fs, new_names) =
     (let fn = rstrip_newline line in
      case load fs fn of
        Inl e \<Rightarrow> ((fs, new_names), Some e)
      | Inr cur_sd \<Rightarrow>
          (let delete = where_not_isin (sites_position cur_sd) (sites_position target_sd);
               small_cur_sd = delete_sites cur_sd delete
           in compatible_loop target_sd rest
                (fs(deleted_name fn \<mapsto> Samples small_cur_sd), new_names @ [deleted_name fn])))"

definition compatible_files ::
  "filesystem \<Rightarrow> string \<Rightarrow> (filesystem \<times> string list) \<times> py_error option" where
  "compatible_files fs input =
     (case read_lines fs input of
        Inl e \<Rightarrow> ((fs, []), Some e)
      | Inr [] \<Rightarrow> ((fs, []), None)
      | Inr (line # rest) \<Rightarrow>
          (case load fs (rstrip_newline line) of
             Inl e \<Rightarrow> ((fs, []), Some e)
           | Inr target_sd \<Rightarrow> compatible_loop target_sd rest (fs, [])))"

text \<open>
  The last statement, \<^verbatim>\<open>with open(args.output, "r") as newfile:
  newfile.writelines(new_names)\<close>. Opening a missing file for reading raises
  \<^verbatim>\<open>FileNotFoundError\<close>. \<^verbatim>\<open>writelines\<close> calls \<^verbatim>\<open>write\<close> once for each
  line; on a file opened for reading the first call raises
  \<^verbatim>\<open>io.UnsupportedOperation\<close>, and for an empty list there is no call. The file
  system is returned as it is: nothing is ever written through a read handle.
\<close>

definition record_new_names ::
  "filesystem \<Rightarrow> string \<Rightarrow> string list \<Rightarrow> filesystem \<times> py_error option" where
  "record_new_names fs output new_names =
     (case fs output of
        None \<Rightarrow> (fs, Some FileNotFoundError)
      | Some newfile \<Rightarrow>
          (case new_names of
             [] \<Rightarrow> (fs, None)
           | line # lines \<Rightarrow> (fs, Some UnsupportedOperation)))"

text \<open>The handler: the file system after it, and the exception that aborted it, if any.\<close>

definition make_sampledata_compatible ::
  "filesystem \<Rightarrow> string \<Rightarrow> string \<Rightarrow> filesystem \<times> py_error option" where
  "make_sampledata_compatible fs input output =
     (case compatible_files fs input of
        ((fs', new_names), Some e) \<Rightarrow> (fs', Some e)
      | ((fs', new_names), None) \<Rightarrow> record_new_names fs' output new_names)"

section \<open>Combining UKBB samples with the 1000-genomes ancestors (\<^verbatim>\<open>run_combine_ukbb_1kg\<close>)\<close>

text \<open>
  The tables of a tree sequence that the handler reads or rewrites, one record per row.
  Node flags are unsigned 32-bit words. Node identifiers are 32-bit integers in tskit;
  they are below the number of rows of a table that has far fewer than \<open>2 ^ 31\<close> rows,
  so adding one to them does not wrap, and they are modelled as integers (\<open>- 1\<close> is
  tskit's null reference). Times and coordinates are floating-point numbers in the
  source and reals here.
\<close>

record node_row =
  node_flags :: "32 word"
  node_time :: real
  node_population :: int
  node_individual :: int
  node_metadata :: string

record edge_row =
  edge_left :: real
  edge_right :: real
  edge_parent :: int
  edge_child :: int

record site_row =
  site_position :: real
  site_ancestral_state :: string
  site_metadata :: string

record mutation_row =
  mutation_site :: int
  mutation_node :: int
  mutation_derived_state :: string
  mutation_parent :: int
  mutation_metadata :: string

record table_collection =
  ts_sequence_length :: real
  nodes :: "node_row list"
  edges :: "edge_row list"
  sites :: "site_row list"
  mutations :: "mutation_row list"

text \<open>
  \<^verbatim>\<open>tg_ancestors_ts.sites()\<close>: each site of the tree sequence together with
  \<^verbatim>\<open>site.mutations\<close>, the mutations whose site is this one.
\<close>

definition ts_sites :: "table_collection \<Rightarrow> (site_row \<times> mutation_row list) list" where
  "ts_sites ts =
     map (\<lambda>(j, s). (s, filter (\<lambda>m. mutation_site m = int j) (mutations ts)))
       (zip [0..<length (sites ts)] (sites ts))"

text \<open>
  \<^verbatim>\<open>tables.sites.add_row(position=..., ancestral_state="0")\<close> returns the identifier
  of the new row; \<^verbatim>\<open>tables.mutations.add_row(site=..., node=..., derived_state="1")\<close>
  leaves the parent null and the metadata empty.
\<close>

definition sites_add_row :: "table_collection \<Rightarrow> real \<Rightarrow> string \<Rightarrow> table_collection \<times> int" where
  "sites_add_row tables pos anc =
     (tables \<lparr> sites := sites tables @
                  [\<lparr> site_position = pos, site_ancestral_state = anc, site_metadata = [] \<rparr>] \<rparr>,
      int (length (sites tables)))"

definition mutations_add_row :: "table_collection \<Rightarrow> int \<Rightarrow> int \<Rightarrow> string \<Rightarrow> table_collection" where
  "mutations_add_row tables site_id node derived =
     tables \<lparr> mutations := mutations tables @
                [\<lparr> mutation_site = site_id, mutation_node = node,
                   mutation_derived_state = derived, mutation_parent = - 1,
                   mutation_metadata = [] \<rparr>] \<rparr>"

text \<open>
  The loop that keeps the sites at intersecting positions. The site row is added before
  the assertion on the number of mutations of the site is checked.
\<close>

fun subset_loop ::
  "real set \<Rightarrow> (site_row \<times> mutation_row list) list \<Rightarrow> table_collection
     \<Rightarrow> py_error + table_collection" where
  "subset_loop intersecting_sites [] tables = Inr tables"
| "subset_loop intersecting_sites ((s, site_mutations) # rest) tables =
     (if site_position s \<in> intersecting_sites then
        (case sites_add_row tables (site_position s) ''0'' of
           (tables1, site_id) \<Rightarrow>
             if length site_mutations \<noteq> 1 then Inl AssertionError
             else subset_loop intersecting_sites rest
                    (mutations_add_row tables1 site_id
                       (mutation_node (site_mutations ! 0)) ''1''))
      else subset_loop intersecting_sites rest tables)"

definition intersecting :: "real list \<Rightarrow> table_collection \<Rightarrow> real set" where
  "intersecting ukbb_positions tables =
     (let ukbb_sites = set ukbb_positions;
          ancestors_sites = set (map site_position (sites tables))
      in ancestors_sites \<inter> ukbb_sites)"

text \<open>
  Lines 151 to 168: the tables of the 1000-genomes tree sequence with the sites and
  mutations replaced by those at positions that the UKBB sample data has too.
\<close>

definition subset_sites :: "real list \<Rightarrow> table_collection \<Rightarrow> py_error + table_collection" where
  "subset_sites ukbb_positions tg_ancestors_ts =
     subset_loop (intersecting ukbb_positions tg_ancestors_ts) (ts_sites tg_ancestors_ts)
       (tg_ancestors_ts \<lparr> sites := [], mutations := [] \<rparr>)"

text \<open>
  A tree of the reduced tree sequence, as far as the handler looks at it: the left end
  of its interval and its root (\<^verbatim>\<open>tree.root\<close> raises \<^verbatim>\<open>ValueError\<close> for a tree
  with several roots, which is \<open>None\<close> here).
\<close>

record tree =
  tree_left :: real
  tree_root :: "int option"

text \<open>
  The loop over the remaining trees: whenever the root changes, an edge from the new
  node 0 to the old root (renumbered) is added for the interval on which it was root.
\<close>

fun root_edges_loop ::
  "real \<Rightarrow> int \<Rightarrow> tree list \<Rightarrow> edge_row list \<Rightarrow> py_error + (real \<times> int \<times> edge_row list)" where
  "root_edges_loop left root_id [] added = Inr (left, root_id, added)"
| "root_edges_loop left root_id (t # trees) added =
     (case tree_root t of
        None \<Rightarrow> Inl ValueError
      | Some r \<Rightarrow>
          if r \<noteq> root_id then
            root_edges_loop (tree_left t) r trees
              (added @ [\<lparr> edge_left = left, edge_right = tree_left t, edge_parent = 0,
                          edge_child = root_id + 1 \<rparr>])
          else root_edges_loop left root_id trees added)"

text \<open>
  Lines 173 to 211: node 0 is put in front of the node table, one older than all other
  nodes; every old node gets the sample flag and its time plus one; every node
  reference of the edges and mutations is shifted by one; the root edges are added.
  \<^verbatim>\<open>np.max\<close> of an empty array raises \<^verbatim>\<open>ValueError\<close>, and \<^verbatim>\<open>next(trees)\<close>
  raises \<^verbatim>\<open>StopIteration\<close> when there is no tree.
\<close>

definition rewrite_nodes :: "table_collection \<Rightarrow> tree list \<Rightarrow> py_error + table_collection" where
  "rewrite_nodes tables trees =
     (let old = nodes tables in
      if old = [] then Inl ValueError
      else
        let node0 = \<lparr> node_flags = 1, node_time = Max (set (map node_time old)) + 2,
                      node_population = - 1, node_individual = - 1, node_metadata = [] \<rparr>;
            new_nodes = node0 #
              map (\<lambda>n. n \<lparr> node_flags := node_flags n OR 1, node_time := node_time n + 1 \<rparr>) old;
            new_edges =
              map (\<lambda>e. e \<lparr> edge_parent := edge_parent e + 1, edge_child := edge_child e + 1 \<rparr>)
                (edges tables);
            new_mutations =
              map (\<lambda>m. m \<lparr> mutation_node := mutation_node m + 1 \<rparr>) (mutations tables)
        in case trees of
             [] \<Rightarrow> Inl StopIteration
           | t # rest \<Rightarrow>
               (case tree_root t of
                  None \<Rightarrow> Inl ValueError
                | Some root0 \<Rightarrow>
                    (case root_edges_loop 0 root0 rest [] of
                       Inl e \<Rightarrow> Inl e
                     | Inr (left, root_id, added) \<Rightarrow>
                         Inr (tables \<lparr> nodes := new_nodes,
                                       edges := new_edges @ added @
                                         [\<lparr> edge_left = left,
                                            edge_right = ts_sequence_length tables,
                                            edge_parent = 0, edge_child = root_id + 1 \<rparr>],
                                       mutations := new_mutations \<rparr>))))"

text \<open>
  The first half of the handler, up to the tables that are sorted and written as the
  ancestors tree sequence. The two external operations are parameters:
  \<open>simplify\<close> is \<^verbatim>\<open>tables.simplify(reduce_to_site_topology=True, filter_sites=False)\<close>
  and \<open>trees_of\<close> gives the trees of \<^verbatim>\<open>tables.tree_sequence()\<close>; either may raise.
  \<^verbatim>\<open>tables.sort()\<close> only brings the rows into tskit's canonical order and is not
  modelled: the result is the table collection handed to it.
\<close>

definition combine_ancestors ::
  "(table_collection \<Rightarrow> py_error + table_collection) \<Rightarrow> (table_collection \<Rightarrow> py_error + tree list)
     \<Rightarrow> real list \<Rightarrow> table_collection \<Rightarrow> py_error + table_collection" where
  "combine_ancestors simplify trees_of ukbb_positions tg_ancestors_ts =
     (case subset_sites ukbb_positions tg_ancestors_ts of
        Inl e \<Rightarrow> Inl e
      | Inr tables \<Rightarrow>
          (case simplify tables of
             Inl e \<Rightarrow> Inl e
           | Inr reduced \<Rightarrow>
               (case trees_of reduced of
                  Inl e \<Rightarrow> Inl e
                | Inr trees \<Rightarrow> rewrite_nodes reduced trees)))"

text \<open>
  The second half writes the new samples file: the first \<open>n\<close> individuals of the UKBB
  file, and its sites at intersecting positions with the genotypes of the first
  \<open>2 * n\<close> samples. \<open>n\<close> is \<^verbatim>\<open>args.num_individuals\<close>, by default the number of
  individuals of the UKBB file.
\<close>

definition combine_samples :: "nat option \<Rightarrow> sample_data \<Rightarrow> real set \<Rightarrow> sample_data" where
  "combine_samples num_individuals ukbb_samples intersecting_sites =
     (let n = (case num_individuals of None \<Rightarrow> length (individuals ukbb_samples) | Some k \<Rightarrow> k)
      in ukbb_samples
           \<lparr> num_samples := 2 * length (take n (individuals ukbb_samples)),
             sd_sites :=
               map (\<lambda>v. v \<lparr> genotypes := take (2 * n) (genotypes v) \<rparr>)
                 (filter (\<lambda>v. position v \<in> intersecting_sites) (sd_sites ukbb_samples)),
             populations_metadata := [],
             samples_population := replicate (2 * length (take n (individuals ukbb_samples))) (- 1),
             individuals := take n (individuals ukbb_samples) \<rparr>)"

text \<open>
  The handler: it fails without writing anything, or writes the ancestors tree sequence
  and then the samples file.
\<close>

definition run_combine_ukbb_1kg ::
  "(table_collection \<Rightarrow> py_error + table_collection) \<Rightarrow> (table_collection \<Rightarrow> py_error + tree list)
     \<Rightarrow> nat option \<Rightarrow> sample_data \<Rightarrow> table_collection
     \<Rightarrow> py_error + (table_collection \<times> sample_data)" where
  "run_combine_ukbb_1kg simplify trees_of num_individuals ukbb_samples tg_ancestors_ts =
     (case combine_ancestors simplify trees_of (sites_position ukbb_samples) tg_ancestors_ts of
        Inl e \<Rightarrow> Inl e
      | Inr ancestors \<Rightarrow>
          Inr (ancestors,
               combine_samples num_individuals ukbb_samples
                 (intersecting (sites_position ukbb_samples) tg_ancestors_ts)))"









section \<open>Merging and combining sample-data files: the common parts\<close>














section \<open>Merging sample-data files (\<^verbatim>\<open>run_merge_sampledata\<close>)\<close>










text \<open>\<^verbatim>\<open>merged_pos[biallelic_sites]\<close>.\<close>

definition mask :: "'a list \<Rightarrow> bool list \<Rightarrow> 'a list" where
  "mask xs flags = map fst (filter snd (zip xs flags))"





section \<open>Combining sample-data files (\<^verbatim>\<open>run_combine_sampledata\<close>)\<close>

text \<open>
  \<^verbatim>\<open>make_site_df\<close>: the data frame of the sites of one file, with the columns
  \<^verbatim>\<open>"<index> Site ID"\<close>, \<^verbatim>\<open>"Position"\<close>, \<^verbatim>\<open>"Ancestral Allele"\<close> and
  \<^verbatim>\<open>"Derived Allele"\<close>; the derived allele of a site with a single allele is
  \<^verbatim>\<open>NaN\<close> (\<open>None\<close>).
\<close>

record df_row =
  df_site_id :: nat
  df_position :: real
  df_ancestral :: string
  df_derived :: "string option"



text \<open>
  A row of \<open>combined_pos_df\<close>. \<open>site_ids\<close> holds the columns \<^verbatim>\<open>"<i> Site ID"\<close>
  of the files merged so far, \<open>derived_of\<close> the columns \<^verbatim>\<open>"Derived Allele<i>"\<close> of
  the files after the first (the entry for file \<open>i\<close> is at \<open>i - 1\<close>); \<^verbatim>\<open>NaN\<close> is
  \<open>None\<close>.
\<close>

record combined_row =
  site_ids :: "nat option list"
  c_position :: real
  c_ancestral :: string
  c_derived :: "string option"
  derived_of :: "string option list"


text \<open>
  \<^verbatim>\<open>pd.merge(combined_pos_df, df, how="outer", suffixes=("", index),
  on=["Position", "Ancestral Allele"])\<close>: one row for every pair of a left and a right
  row with the same key, and one row for every row without a partner, with \<^verbatim>\<open>NaN\<close>
  in the columns of the other side; the keys come in lexicographic order. \<open>dkey\<close> and
  \<open>ckey\<close> are the key of a row of the right and of the left table.
\<close>

definition dkey :: "df_row \<Rightarrow> real \<times> string" where
  "dkey r = (df_position r, df_ancestral r)"

definition ckey :: "combined_row \<Rightarrow> real \<times> string" where
  "ckey row = (c_position row, c_ancestral row)"

definition left_only :: "combined_row \<Rightarrow> combined_row" where
  "left_only l = l \<lparr> site_ids := site_ids l @ [None], derived_of := derived_of l @ [None] \<rparr>"

definition right_only :: "nat \<Rightarrow> df_row \<Rightarrow> combined_row" where
  "right_only index r =
     \<lparr> site_ids = replicate index None @ [Some (df_site_id r)],
       c_position = df_position r, c_ancestral = df_ancestral r, c_derived = None,
       derived_of = replicate (index - 1) None @ [df_derived r] \<rparr>"

definition both_sides :: "combined_row \<Rightarrow> df_row \<Rightarrow> combined_row" where
  "both_sides l r =
     l \<lparr> site_ids := site_ids l @ [Some (df_site_id r)],
         derived_of := derived_of l @ [df_derived r] \<rparr>"



text \<open>
  \<^verbatim>\<open>combined_pos_df["Derived Allele"].fillna(combined_pos_df["Derived Allele" +
  str(index)])\<close>.
\<close>

definition fillna :: "combined_row \<Rightarrow> combined_row" where
  "fillna row =
     row \<lparr> c_derived := (case c_derived row of None \<Rightarrow> last (derived_of row) | Some d \<Rightarrow> Some d) \<rparr>"



text \<open>
  The genotypes of a later file before they are copied: at the sites whose identifiers
  are listed (those with a new derived allele) every genotype 1 becomes missing.
\<close>

definition missing_where_derived :: "int list \<Rightarrow> int list" where
  "missing_where_derived g = map (\<lambda>x. if x = 1 then MISSING_DATA else x) g"










section \<open>The input of the merging and combining handlers\<close>















section \<open>Example inputs\<close>

text \<open>A working directory for the examples: a list of two sample-data files.\<close>

definition example_sd :: "real list \<Rightarrow> sample_data" where
  "example_sd ps =
     \<lparr> sequence_length = 100, num_samples = 2,
       sd_sites = map (\<lambda>p. \<lparr> position = p, alleles = [''A'', ''C''], genotypes = [0, 1],
                           metadata = ''{}'' \<rparr>) ps,
       populations_metadata = [[(''name'', ''pop0'')]],
       samples_population = [0, 0],
       individuals = [\<lparr> ind_metadata = ''{}'', ind_time = 0 \<rparr>] \<rparr>"

definition example_fs :: "string list \<Rightarrow> filesystem" where
  "example_fs ls =
     [''files.txt'' \<mapsto> Text ls,
      ''a.samples'' \<mapsto> Samples (example_sd [1, 2, 3]),
      ''b.samples'' \<mapsto> Samples (example_sd [2, 3, 4]),
      ''names.txt'' \<mapsto> Text []]"

















section \<open>Properties of the entry point\<close>

lemma map_of_subparsers_Some:
  "(\<exists>func. map_of subparsers name = Some func) = (name \<in> set (map fst subparsers))"
  by (metis map_of_eq_None_iff not_Some_eq set_map)

text \<open>
  Claim C7. The entry point registers exactly the fourteen subcommands simplify,
  sequential-augment, combine-ukbb-1kg, benchmark-tskit, benchmark-vcf,
  compute-1kg-ukbb-gnn, compute-ukbb-gnn, compute-1kg-gnn, compute-sgdp-gnn,
  compute-hgdp-gnn, snip-centromere, combine-sampledata, merge-sampledata and
  make-sampledata-compatible (no name twice); a command line without a subcommand is
  rejected; a token is accepted exactly when it is one of the fourteen names; and each
  name dispatches to its one handler.
\<close>

theorem main_registers_fourteen_subcommands:
  "map fst subparsers =
     [''simplify'', ''sequential-augment'', ''combine-ukbb-1kg'', ''benchmark-tskit'',
      ''benchmark-vcf'', ''compute-1kg-ukbb-gnn'', ''compute-ukbb-gnn'', ''compute-1kg-gnn'',
      ''compute-sgdp-gnn'', ''compute-hgdp-gnn'', ''snip-centromere'', ''combine-sampledata'',
      ''merge-sampledata'', ''make-sampledata-compatible'']
   \<and> length subparsers = 14
   \<and> distinct (map fst subparsers)
   \<and> main None = Inl ArgparseExit
   \<and> ((\<exists>func. main (Some name) = Inr func) = (name \<in> set (map fst subparsers)))
   \<and> main (Some ''simplify'') = Inr Fn_run_simplify
   \<and> main (Some ''sequential-augment'') = Inr Fn_run_sequential_augment
   \<and> main (Some ''combine-ukbb-1kg'') = Inr Fn_run_combine_ukbb_1kg
   \<and> main (Some ''benchmark-tskit'') = Inr Fn_run_benchmark_tskit
   \<and> main (Some ''benchmark-vcf'') = Inr Fn_run_benchmark_vcf
   \<and> main (Some ''compute-1kg-ukbb-gnn'') = Inr Fn_run_compute_1kg_ukbb_gnn
   \<and> main (Some ''compute-ukbb-gnn'') = Inr Fn_run_compute_ukbb_gnn
   \<and> main (Some ''compute-1kg-gnn'') = Inr Fn_run_compute_1kg_gnn
   \<and> main (Some ''compute-sgdp-gnn'') = Inr Fn_run_compute_sgdp_gnn
   \<and> main (Some ''compute-hgdp-gnn'') = Inr Fn_run_compute_hgdp_gnn
   \<and> main (Some ''snip-centromere'') = Inr Fn_run_snip_centromere
   \<and> main (Some ''combine-sampledata'') = Inr Fn_run_combine_sampledata
   \<and> main (Some ''merge-sampledata'') = Inr Fn_run_merge_sampledata
   \<and> main (Some ''make-sampledata-compatible'') = Inr Fn_make_sampledata_compatible"
proof -
  have names: "map fst subparsers =
     [''simplify'', ''sequential-augment'', ''combine-ukbb-1kg'', ''benchmark-tskit'',
      ''benchmark-vcf'', ''compute-1kg-ukbb-gnn'', ''compute-ukbb-gnn'', ''compute-1kg-gnn'',
      ''compute-sgdp-gnn'', ''compute-hgdp-gnn'', ''snip-centromere'', ''combine-sampledata'',
      ''merge-sampledata'', ''make-sampledata-compatible'']"
    by (simp add: subparsers_def)
  have len: "length subparsers = 14"
    by (simp add: subparsers_def)
  have dist: "distinct (map fst subparsers)"
    unfolding names by simp
  have req: "main None = Inl ArgparseExit"
    by (simp add: main_def)
  have known: "(\<exists>func. main (Some name) = Inr func) = (name \<in> set (map fst subparsers))"
    using map_of_subparsers_Some [of name]
    by (auto simp: main_def split: option.splits)
  have each:
    "main (Some ''simplify'') = Inr Fn_run_simplify"
    "main (Some ''sequential-augment'') = Inr Fn_run_sequential_augment"
    "main (Some ''combine-ukbb-1kg'') = Inr Fn_run_combine_ukbb_1kg"
    "main (Some ''benchmark-tskit'') = Inr Fn_run_benchmark_tskit"
    "main (Some ''benchmark-vcf'') = Inr Fn_run_benchmark_vcf"
    "main (Some ''compute-1kg-ukbb-gnn'') = Inr Fn_run_compute_1kg_ukbb_gnn"
    "main (Some ''compute-ukbb-gnn'') = Inr Fn_run_compute_ukbb_gnn"
    "main (Some ''compute-1kg-gnn'') = Inr Fn_run_compute_1kg_gnn"
    "main (Some ''compute-sgdp-gnn'') = Inr Fn_run_compute_sgdp_gnn"
    "main (Some ''compute-hgdp-gnn'') = Inr Fn_run_compute_hgdp_gnn"
    "main (Some ''snip-centromere'') = Inr Fn_run_snip_centromere"
    "main (Some ''combine-sampledata'') = Inr Fn_run_combine_sampledata"
    "main (Some ''merge-sampledata'') = Inr Fn_run_merge_sampledata"
    "main (Some ''make-sampledata-compatible'') = Inr Fn_make_sampledata_compatible"
    by (simp_all add: main_def subparsers_def)
  show ?thesis
    using names len dist req known each by blast
qed

section \<open>Properties of sequential augmentation\<close>

lemma total_loop_returns: "0 < n \<Longrightarrow> \<exists>r. total_loop q n t = Some r"
proof (induction "q - n" arbitrary: n t rule: less_induct)
  case less
  show ?case
  proof (cases "n < q")
    case True
    then have "q - n * 2 < q - n"
      using less.prems by simp
    moreover have "0 < n * 2"
      using less.prems by simp
    ultimately obtain r where "total_loop q (n * 2) (t + n) = Some r"
      using less.hyps [of "n * 2" "t + n"] by blast
    then show ?thesis
      using True by (subst total_loop.simps) simp
  next
    case False
    then show ?thesis
      by (subst total_loop.simps) simp
  qed
qed

lemma augment_round_fields:
  "n_var (augment_round a b s st) = n_var st * 2"
  "final_file (augment_round a b s st) \<noteq> None"
  by (simp_all add: augment_round_def Let_def)

lemma augment_loop_returns:
  "0 < n_var st \<Longrightarrow>
   \<exists>st'. augment_loop a b s q st = Some st' \<and> \<not> n_var st' < q
        \<and> (final_file st \<noteq> None \<or> n_var st < q \<longrightarrow> final_file st' \<noteq> None)
        \<and> (\<not> n_var st < q \<longrightarrow> st' = st)"
proof (induction "q - n_var st" arbitrary: st rule: less_induct)
  case less
  show ?case
  proof (cases "n_var st < q")
    case True
    let ?st1 = "augment_round a b s st"
    have "q - n_var ?st1 < q - n_var st"
      using True less.prems by (simp add: augment_round_fields)
    moreover have "0 < n_var ?st1"
      using less.prems by (simp add: augment_round_fields)
    ultimately obtain st' where
      st': "augment_loop a b s q ?st1 = Some st'" "\<not> n_var st' < q"
        "final_file ?st1 \<noteq> None \<or> n_var ?st1 < q \<longrightarrow> final_file st' \<noteq> None"
      using less.hyps [of ?st1] by blast
    have "augment_loop a b s q st = Some st'"
      using True st'(1) by (subst augment_loop.simps) simp
    then show ?thesis
      using True st'(2,3) by (simp add: augment_round_fields)
  next
    case False
    then have "augment_loop a b s q st = Some st"
      by (subst augment_loop.simps) simp
    then show ?thesis
      using False by simp
  qed
qed

lemma total_loop_sum:
  "total_loop q n t = Some (n', t') \<Longrightarrow> 0 < n \<Longrightarrow> t + 2 = n \<Longrightarrow>
   t' + 2 = n' \<and> (n' = n \<or> n' < 2 * q)"
proof (induction "q - n" arbitrary: n t rule: less_induct)
  case less
  show ?case
  proof (cases "n < q")
    case True
    then have step: "total_loop q (n * 2) (t + n) = Some (n', t')"
      using less.prems(1) by (subst (asm) total_loop.simps) simp
    have "q - n * 2 < q - n" "0 < n * 2" "t + n + 2 = n * 2"
      using True less.prems(2,3) by simp_all
    from less.hyps [OF this(1) step this(2,3)] have "t' + 2 = n'" "n' = n * 2 \<or> n' < 2 * q"
      by simp_all
    then show ?thesis
      using True by auto
  next
    case False
    then have "n' = n" "t' = t"
      using less.prems(1) by (subst (asm) total_loop.simps, simp)+
    then show ?thesis
      using less.prems(3) by simp
  qed
qed

text \<open>
  The number of samples drawn never exceeds the number of samples, so the draw without
  replacement is possible.
\<close>

lemma total_loop_within_samples:
  assumes "total_loop (nsamples div 4) 2 0 = Some (n_end, tot)"
  shows "tot \<le> nsamples"
proof -
  from total_loop_sum [OF assms] have "tot + 2 = n_end" "n_end = 2 \<or> n_end < 2 * (nsamples div 4)"
    by simp_all
  then show ?thesis
    by auto
qed

lemma quarter_gt_two: "(2 < nsamples div 4) = (12 \<le> (nsamples::nat))"
  by presburger

text \<open>
  Claim C8. With fewer than 12 samples (so that 2 is not less than
  \<open>num_samples div 4\<close>) no augmentation round runs: only the array of drawn samples has
  been written when the handler aborts with the unbound-local error on \<open>final_file\<close>.
  With 12 or more samples both loops end, \<open>final_file\<close> has been assigned, and the last
  file written is the final matched tree sequence, with no error.
\<close>

theorem sequential_augment_final_file:
  "(nsamples < 12 \<longrightarrow>
      run_sequential_augment choice augment match_samples input nsamples ts0 =
        Some ([(base_of input @ ''.augmented_samples.npy'', Npy (choice nsamples 0))],
              Some UnboundLocalError))
   \<and> (12 \<le> nsamples \<longrightarrow>
      (\<exists>files f ts.
         run_sequential_augment choice augment match_samples input nsamples ts0 =
           Some (files @ [(f, Trees ts)], None)))"
proof (intro conjI impI)
  assume small: "nsamples < 12"
  then have q: "\<not> 2 < nsamples div 4"
    using quarter_gt_two [of nsamples] by simp
  have t: "total_loop (nsamples div 4) 2 0 = Some (2, 0)"
    using q by (subst total_loop.simps) simp
  have a: "augment_loop augment b s (nsamples div 4)
             \<lparr> n_var = 2, j_var = 0, ancestors_ts = ts0, final_file = None, written = w \<rparr>
           = Some \<lparr> n_var = 2, j_var = 0, ancestors_ts = ts0, final_file = None, written = w \<rparr>"
    for b s w
    using q by (subst augment_loop.simps) simp
  show "run_sequential_augment choice augment match_samples input nsamples ts0 =
        Some ([(base_of input @ ''.augmented_samples.npy'', Npy (choice nsamples 0))],
              Some UnboundLocalError)"
    by (simp add: run_sequential_augment_def Let_def t a)
next
  assume big: "12 \<le> nsamples"
  then have q: "2 < nsamples div 4"
    using quarter_gt_two [of nsamples] by simp
  obtain n_end tot where t: "total_loop (nsamples div 4) 2 0 = Some (n_end, tot)"
    using total_loop_returns [of 2 "nsamples div 4" 0] by auto
  let ?st0 = "\<lparr> n_var = 2, j_var = 0, ancestors_ts = ts0, final_file = None,
                 written = [(base_of input @ ''.augmented_samples.npy'',
                             Npy (choice nsamples tot))] \<rparr>"
  obtain st where st:
      "augment_loop augment (base_of input) (choice nsamples tot) (nsamples div 4) ?st0
         = Some st"
      "final_file st \<noteq> None"
    using augment_loop_returns [of ?st0 augment "base_of input" "choice nsamples tot"
        "nsamples div 4"] q
    by auto
  from st(2) obtain f where f: "final_file st = Some f"
    by auto
  have "run_sequential_augment choice augment match_samples input nsamples ts0 =
          Some (written st @ [(f, Trees (match_samples (ancestors_ts st)))], None)"
    by (simp add: run_sequential_augment_def Let_def t st(1) f)
  then show "\<exists>files f ts.
         run_sequential_augment choice augment match_samples input nsamples ts0 =
           Some (files @ [(f, Trees ts)], None)"
    by blast
qed

theorem sequential_augment_final_file_witness:
  "((11::nat) < 12 \<and>
      run_sequential_augment (\<lambda>n k. take k (rev [0..<n])) (\<lambda>sub ts. ts + length sub) Suc
          ''ukbb.chr20.samples'' 11 (0::nat) =
        Some ([(''ukbb.chr20.augmented_samples.npy'', Npy [])], Some UnboundLocalError))
   \<and> ((12::nat) \<le> 12 \<and>
      run_sequential_augment (\<lambda>n k. take k (rev [0..<n])) (\<lambda>sub ts. ts + length sub) Suc
          ''ukbb.chr20.samples'' 12 (0::nat) =
        Some ([(''ukbb.chr20.augmented_samples.npy'', Npy [11, 10]),
               (''ukbb.chr20.augmented_2.ancestors.trees'', Trees 2),
               (''ukbb.chr20.augmented_2.nosimplify.trees'', Trees 3)], None))"
proof -
  have small: "run_sequential_augment (\<lambda>n k. take k (rev [0..<n])) (\<lambda>sub ts. ts + length sub) Suc
          ''ukbb.chr20.samples'' 11 (0::nat) =
        Some ([(''ukbb.chr20.augmented_samples.npy'', Npy [])], Some UnboundLocalError)"
    using sequential_augment_final_file
      [of 11 "\<lambda>n k. take k (rev [0..<n])" "\<lambda>sub ts. ts + length sub" Suc
          "''ukbb.chr20.samples''" "0::nat"]
    by (simp add: base_of_def)
  have t: "total_loop 3 2 0 = Some (4, 2)"
    by (subst total_loop.simps, simp, subst total_loop.simps, simp)
  have s2: "str_nat 2 = ''2''"
    by (simp add: str_nat.simps)
  have big: "run_sequential_augment (\<lambda>n k. take k (rev [0..<n])) (\<lambda>sub ts. ts + length sub) Suc
          ''ukbb.chr20.samples'' 12 (0::nat) =
        Some ([(''ukbb.chr20.augmented_samples.npy'', Npy [11, 10]),
               (''ukbb.chr20.augmented_2.ancestors.trees'', Trees 2),
               (''ukbb.chr20.augmented_2.nosimplify.trees'', Trees 3)], None)"
    apply (simp add: run_sequential_augment_def Let_def t base_of_def)
    apply (subst augment_loop.simps, simp add: augment_round_def Let_def s2)
    apply (subst augment_loop.simps, simp add: upt_rec [of _ "numeral _"] upt_rec [of 0])
    done
  show ?thesis
    using small big by simp
qed

section \<open>Properties of snipping the centromere\<close>

lemma find_centromere_no_match:
  "list_all (\<lambda>row. row ''chrom'' \<noteq> Some (Some chrom)) reader \<Longrightarrow>
   find_centromere int_of reader chrom =
     (if list_all (\<lambda>row. row ''chrom'' \<noteq> None) reader then Inl ValueError else Inl KeyError)"
  by (induction reader) (auto split: option.splits)

lemma row_dict_dom: "dom (row_dict fieldnames row) = set fieldnames"
proof -
  have "length (map Some row @ replicate (length fieldnames - length row) None)
          \<ge> length fieldnames"
    by simp
  then have "fst ` set (zip fieldnames
               (map Some row @ replicate (length fieldnames - length row) None))
             = set fieldnames"
    by (simp add: map_fst_zip_take flip: set_map)
  then show ?thesis
    by (simp add: row_dict_def dom_map_of_conv_image_fst)
qed

lemma DictReader_has_chrom:
  "list_all (\<lambda>row. row ''chrom'' \<noteq> None) (DictReader csvfile)
     = (DictReader csvfile = [] \<or> ''chrom'' \<in> set (hd csvfile))"
proof (cases csvfile)
  case Nil
  then show ?thesis by simp
next
  case (Cons fieldnames rows)
  have "(row_dict fieldnames row ''chrom'' \<noteq> None) = (''chrom'' \<in> set fieldnames)" for row
    using row_dict_dom [of fieldnames row] by (auto simp: dom_def)
  then show ?thesis
    using Cons by (auto simp: list_all_iff filter_empty_conv)
qed

text \<open>
  Claim C6, as amended. If no row of the centromere table has a \<^verbatim>\<open>chrom\<close> field equal
  to the chromosome name, the handler aborts before the input tree sequence is loaded
  and nothing is dumped. The exception is \<^verbatim>\<open>ValueError\<close> when the table has a
  \<^verbatim>\<open>chrom\<close> column or no data row at all; it is the \<^verbatim>\<open>KeyError\<close> of
  \<^verbatim>\<open>row["chrom"]\<close> when the table has data rows but no such column.
\<close>

theorem snip_centromere_missing_chrom:
  "no_chrom_row csvfile chrom \<Longrightarrow>
   run_snip_centromere int_of csvfile chrom pos =
     ([], Some (if DictReader csvfile = [] \<or> ''chrom'' \<in> set (hd csvfile)
                then ValueError else KeyError))"
proof -
  assume "no_chrom_row csvfile chrom"
  then have "find_centromere int_of (DictReader csvfile) chrom =
     (if DictReader csvfile = [] \<or> ''chrom'' \<in> set (hd csvfile)
      then Inl ValueError else Inl KeyError)"
    unfolding no_chrom_row_def
    by (simp only: find_centromere_no_match DictReader_has_chrom)
  then show ?thesis
    by (simp add: run_snip_centromere_def)
qed

theorem snip_centromere_missing_chrom_witness:
  "no_chrom_row [[''chrom'', ''start'', ''end''], [''chr1'', ''121700000'', ''125100000'']] ''chr20''
   \<and> run_snip_centromere decimal_int
        [[''chrom'', ''start'', ''end''], [''chr1'', ''121700000'', ''125100000'']] ''chr20''
        [100, 200, 300]
      = ([], Some ValueError)"
proof -
  have h: "no_chrom_row [[''chrom'', ''start'', ''end''],
                         [''chr1'', ''121700000'', ''125100000'']] ''chr20''"
    by (simp add: no_chrom_row_def row_dict_def)
  show ?thesis
    using h snip_centromere_missing_chrom [OF h, of decimal_int "[100, 200, 300]"]
    by simp
qed

text \<open>
  The claim as first stated promises \<^verbatim>\<open>ValueError\<close> whenever no row matches. A table
  whose chromosome column is headed \<^verbatim>\<open>chr\<close> has no matching row, and the handler
  aborts with \<^verbatim>\<open>KeyError\<close> instead.
\<close>

theorem snip_centromere_KeyError_counterexample:
  "no_chrom_row [[''chr'', ''start'', ''end''], [''chr20'', ''25700000'', ''30400000'']] ''chr20''
   \<and> run_snip_centromere decimal_int
        [[''chr'', ''start'', ''end''], [''chr20'', ''25700000'', ''30400000'']] ''chr20''
        [100, 200, 300]
      = ([], Some KeyError)
   \<and> run_snip_centromere decimal_int
        [[''chr'', ''start'', ''end''], [''chr20'', ''25700000'', ''30400000'']] ''chr20''
        [100, 200, 300]
      \<noteq> ([], Some ValueError)"
  by (simp add: no_chrom_row_def run_snip_centromere_def row_dict_def)

lemma snip_centromere_found_example:
  "run_snip_centromere decimal_int
     [[''chrom'', ''start'', ''end''], [''chr20'', ''150'', ''450'']] ''chr20''
     [100, 200, 300, 400, 500, 600]
   = ([Load_input, Dump_snipped 201 300], None)"
  by (simp add: run_snip_centromere_def row_dict_def int_field_def decimal_int_def
      searchsorted_def argmax_def)

section \<open>Properties of making sample-data files compatible\<close>

lemma compatible_loop_names:
  "compatible_loop target_sd ls (fs, names) = ((fs', names'), None) \<Longrightarrow>
   names' = names @ map (\<lambda>l. deleted_name (rstrip_newline l)) ls"
proof (induction ls arbitrary: fs names)
  case Nil
  then show ?case by simp
next
  case (Cons l ls)
  from Cons.prems obtain cur_sd where cur: "load fs (rstrip_newline l) = Inr cur_sd"
    by (auto simp: Let_def split: sum.splits)
  let ?fn = "deleted_name (rstrip_newline l)"
  let ?small = "delete_sites cur_sd
                  (where_not_isin (sites_position cur_sd) (sites_position target_sd))"
  have "compatible_loop target_sd ls (fs(?fn \<mapsto> Samples ?small), names @ [?fn])
          = ((fs', names'), None)"
    using Cons.prems cur by (simp add: Let_def)
  then have "names' = (names @ [?fn]) @ map (\<lambda>l. deleted_name (rstrip_newline l)) ls"
    by (rule Cons.IH)
  then show ?case
    by simp
qed

lemma compatible_files_names:
  assumes "compatible_files fs input = ((fs', new_names), None)"
  shows "\<exists>ls. read_lines fs input = Inr ls
              \<and> new_names = map (\<lambda>l. deleted_name (rstrip_newline l)) (tl ls)"
proof (cases "read_lines fs input")
  case (Inl e)
  with assms show ?thesis
    by (simp add: compatible_files_def)
next
  case (Inr ls)
  show ?thesis
  proof (cases ls)
    case Nil
    with assms Inr show ?thesis
      by (simp add: compatible_files_def)
  next
    case (Cons l rest)
    with assms Inr show ?thesis
      by (auto simp: compatible_files_def split: sum.splits dest: compatible_loop_names)
  qed
qed

text \<open>
  Claim C9, as amended. Whenever the handler reaches the step that records the new file
  names, the file system stays as the loop left it: the names are never written. The
  step raises \<^verbatim>\<open>FileNotFoundError\<close> when the output path does not exist, and
  \<^verbatim>\<open>io.UnsupportedOperation\<close> when it exists and there is at least one new name,
  that is, when the input lists at least two files. When the output path exists and the
  input lists at most one file, the list of new names is empty and the handler ends
  without an error.
\<close>

theorem make_sampledata_compatible_never_records:
  assumes "compatible_files fs input = ((fs', new_names), None)"
  shows "(\<exists>ls. read_lines fs input = Inr ls
              \<and> new_names = map (\<lambda>l. deleted_name (rstrip_newline l)) (tl ls))
       \<and> make_sampledata_compatible fs input output =
           (fs', if fs' output = None then Some FileNotFoundError
                 else if new_names = [] then None
                 else Some UnsupportedOperation)"
proof
  show "\<exists>ls. read_lines fs input = Inr ls
              \<and> new_names = map (\<lambda>l. deleted_name (rstrip_newline l)) (tl ls)"
    using assms by (rule compatible_files_names)
  show "make_sampledata_compatible fs input output =
           (fs', if fs' output = None then Some FileNotFoundError
                 else if new_names = [] then None
                 else Some UnsupportedOperation)"
    using assms
    by (simp add: make_sampledata_compatible_def record_new_names_def
        split: option.splits list.splits)
qed

lemma compatible_files_two:
  "compatible_files (example_fs [''a.samples'' @ [CHR 0x0A], ''b.samples'' @ [CHR 0x0A]])
     ''files.txt''
   = (((example_fs [''a.samples'' @ [CHR 0x0A], ''b.samples'' @ [CHR 0x0A]])
         (''bdeleted.samples'' \<mapsto> Samples (example_sd [2, 3])),
       [''bdeleted.samples'']), None)"
  by (simp add: compatible_files_def read_lines_def load_def example_fs_def
      rstrip_newline_def deleted_name_def Let_def where_not_isin_def
      delete_sites_def sites_position_def example_sd_def upt_rec [of _ "numeral _"]
      upt_rec [of 0])

theorem make_sampledata_compatible_never_records_witness:
  "make_sampledata_compatible
     (example_fs [''a.samples'' @ [CHR 0x0A], ''b.samples'' @ [CHR 0x0A]])
     ''files.txt'' ''names.txt''
   = ((example_fs [''a.samples'' @ [CHR 0x0A], ''b.samples'' @ [CHR 0x0A]])
         (''bdeleted.samples'' \<mapsto> Samples (example_sd [2, 3])),
      Some UnsupportedOperation)"
  using make_sampledata_compatible_never_records [OF compatible_files_two, of "''names.txt''"]
  by (simp add: example_fs_def)

text \<open>
  The claim as first stated has every invocation that reaches the recording step fail.
  With a single file listed and an existing output path the step is reached, nothing is
  written, and the handler ends without an error.
\<close>

theorem make_sampledata_compatible_counterexample:
  "compatible_files (example_fs [''a.samples'' @ [CHR 0x0A]]) ''files.txt''
     = ((example_fs [''a.samples'' @ [CHR 0x0A]], []), None)
   \<and> make_sampledata_compatible (example_fs [''a.samples'' @ [CHR 0x0A]])
        ''files.txt'' ''names.txt''
     = (example_fs [''a.samples'' @ [CHR 0x0A]], None)"
  by (simp add: make_sampledata_compatible_def compatible_files_def read_lines_def load_def
      example_fs_def rstrip_newline_def record_new_names_def)

section \<open>Properties of combining UKBB samples with the 1000-genomes ancestors\<close>

subsection \<open>Rewriting the nodes\<close>








subsection \<open>Subsetting the sites\<close>







subsection \<open>The written ancestors tree sequence\<close>













section \<open>Properties of merging and combining sample-data files\<close>

subsection \<open>Loading the input files\<close>









subsection \<open>The files a run has loaded\<close>




subsection \<open>The merged positions\<close>




lemma mask_set: "set (mask xs flags) \<subseteq> set xs"
  by (auto simp: mask_def dest: set_zip_leftD)




subsection \<open>The number of merged sites\<close>











subsection \<open>The files the combining handler has loaded\<close>




subsection \<open>The site table of a file\<close>





subsection \<open>The outer join of the site tables\<close>




lemma ckey_simps [simp]:
  "ckey (left_only l) = ckey l"
  "ckey (right_only index r) = dkey r"
  "ckey (both_sides l r) = ckey l"
  "ckey (fillna row) = ckey row"
  by (simp_all add: ckey_def dkey_def left_only_def right_only_def both_sides_def fillna_def)

lemma site_ids_fillna [simp]: "site_ids (fillna row) = site_ids row"
  by (simp add: fillna_def)





subsection \<open>The combined table\<close>





subsection \<open>The number of combined sites\<close>












subsection \<open>The columns of the merged genotypes\<close>






lemma zip_upt_nth:
  "k < length xs \<Longrightarrow> snd (zip [0..<length xs] xs ! k) = xs ! k"
  by simp



subsection \<open>The columns of the combined genotypes\<close>

lemma missing_where_derived_length [simp]:
  "length (missing_where_derived g) = length g"
  by (simp add: missing_where_derived_def)














end
